theory Spec2Isabelle
  imports Complex_Main "HOL-Library.AList"
begin

section \<open>JavaScript values and the host environment\<close>

text \<open>
  The parking-ticket application is JavaScript (React Native). Its domain logic lives in
  three modules: \<^verbatim>\<open>utils/calculatePrice.js\<close> (duration and fee),
  \<^verbatim>\<open>utils/qrCodeUtils.js\<close> (QR payload codec) and
  \<^verbatim>\<open>storage/ticketStorage.js\<close> (the two persisted collections), plus the
  form handler \<^verbatim>\<open>handleSave\<close> of the new-ticket screen.

  Values are modelled as the JSON-shaped fragment of JavaScript the code handles.
  Numbers are the integers the application produces (millisecond time values, minute
  counts, \<^verbatim>\<open>parseInt\<close> results); an object is its property list in
  insertion order, read with first-binding-wins lookup.
\<close>

datatype jsval =
    JUndefined
  | JNull
  | JBool bool
  | JNum int
  | JStr string
  | JArr "jsval list"
  | JObj "(string \<times> jsval) list"

text \<open>Exceptions the code can meet; every one of them is caught by a \<^verbatim>\<open>try/catch\<close>
  in the source, which the model writes as a case split on \<open>Inl\<close>.\<close>

datatype exn = SyntaxError | TypeError | StorageError

text \<open>
  Built-ins of the JavaScript host that the repository calls but does not define are
  parameters of the model, so every theorem holds for whatever the host computes:
  \<^item> \<open>dateParse s\<close> is the time value of \<^verbatim>\<open>new Date(s)\<close> in milliseconds,
    \<open>None\<close> for an invalid date (\<^verbatim>\<open>getTime()\<close> is \<^verbatim>\<open>NaN\<close>);
  \<^item> \<open>jsonParse\<close> is \<^verbatim>\<open>JSON.parse\<close> (\<open>Inl SyntaxError\<close> when it throws);
  \<^item> \<open>jsonStringify\<close> is \<^verbatim>\<open>JSON.stringify\<close>;
  \<^item> \<open>parseInt\<close> is \<^verbatim>\<open>parseInt\<close> (\<open>None\<close> for \<^verbatim>\<open>NaN\<close>);
  \<^item> \<open>isWhiteSpace\<close> is the set of characters \<^verbatim>\<open>String.prototype.trim\<close> strips.
\<close>

record host =
  dateParse :: "string \<Rightarrow> int option"
  jsonParse :: "string \<Rightarrow> exn + jsval"
  jsonStringify :: "jsval \<Rightarrow> string"
  parseInt :: "string \<Rightarrow> int option"
  isWhiteSpace :: "char \<Rightarrow> bool"

text \<open>Values read from the outside world during one call: the UUID minted by
  \<^verbatim>\<open>generateTicketId\<close> and the readings of the clock
  (\<^verbatim>\<open>new Date().toISOString()\<close>), one per place the source reads it.\<close>

record env =
  newId :: string
  entryNow :: string
  createdAtNow :: string
  qrNow :: string

text \<open>Sequencing of computations that may throw.\<close>

definition bindE :: "exn + 'a \<Rightarrow> ('a \<Rightarrow> exn + 'b) \<Rightarrow> exn + 'b" where
  "bindE m f = (case m of Inl e \<Rightarrow> Inl e | Inr x \<Rightarrow> f x)"

text \<open>JavaScript truthiness (\<^verbatim>\<open>!v\<close> is its negation).\<close>

fun truthy :: "jsval \<Rightarrow> bool" where
  "truthy JUndefined = False"
| "truthy JNull = False"
| "truthy (JBool b) = b"
| "truthy (JNum n) = (n \<noteq> 0)"
| "truthy (JStr s) = (s \<noteq> [])"
| "truthy (JArr xs) = True"
| "truthy (JObj kvs) = True"

text \<open>Property read \<^verbatim>\<open>v.k\<close>, for the property names the program uses (none of
  them is defined on a built-in prototype): it throws a TypeError on \<^verbatim>\<open>null\<close> and
  \<^verbatim>\<open>undefined\<close>, yields the property of an object or \<^verbatim>\<open>undefined\<close> when
  the object lacks it, and \<^verbatim>\<open>undefined\<close> on every other value.\<close>

fun getProp :: "jsval \<Rightarrow> string \<Rightarrow> exn + jsval" where
  "getProp JUndefined k = Inl TypeError"
| "getProp JNull k = Inl TypeError"
| "getProp (JObj kvs) k = Inr (case map_of kvs k of None \<Rightarrow> JUndefined | Some v \<Rightarrow> v)"
| "getProp v k = Inr JUndefined"

text \<open>Decimal rendering of an array index, for the keys of a spread array or string.\<close>

definition digitChar :: "nat \<Rightarrow> char" where
  "digitChar d = ''0123456789'' ! d"

fun showNat :: "nat \<Rightarrow> string" where
  "showNat n =
     (if n < 10 then [digitChar n]
      else showNat (n div 10) @ [digitChar (n mod 10)])"

text \<open>The own enumerable properties copied by object spread \<^verbatim>\<open>{...v}\<close>.\<close>

fun spread :: "jsval \<Rightarrow> (string \<times> jsval) list" where
  "spread (JObj kvs) = kvs"
| "spread (JArr xs) = zip (map showNat [0..<length xs]) xs"
| "spread (JStr s) = zip (map showNat [0..<length s]) (map (\<lambda>c. JStr [c]) s)"
| "spread v = []"

text \<open>Array methods. Calling one on a value that is not an array throws a TypeError
  (\<^verbatim>\<open>x.push is not a function\<close>); a callback that throws aborts the method.\<close>

definition arrayItems :: "jsval \<Rightarrow> exn + jsval list" where
  "arrayItems v = (case v of JArr xs \<Rightarrow> Inr xs | _ \<Rightarrow> Inl TypeError)"

fun findIndexFrom :: "(jsval \<Rightarrow> exn + bool) \<Rightarrow> int \<Rightarrow> jsval list \<Rightarrow> exn + int" where
  "findIndexFrom p i [] = Inr (- 1)"
| "findIndexFrom p i (x # xs) =
     (case p x of
        Inl e \<Rightarrow> Inl e
      | Inr b \<Rightarrow> if b then Inr i else findIndexFrom p (i + 1) xs)"

definition findIndex :: "(jsval \<Rightarrow> exn + bool) \<Rightarrow> jsval list \<Rightarrow> exn + int" where
  "findIndex p xs = findIndexFrom p 0 xs"

fun filterE :: "(jsval \<Rightarrow> exn + bool) \<Rightarrow> jsval list \<Rightarrow> exn + jsval list" where
  "filterE p [] = Inr []"
| "filterE p (x # xs) =
     (case p x of
        Inl e \<Rightarrow> Inl e
      | Inr b \<Rightarrow>
          (case filterE p xs of
             Inl e \<Rightarrow> Inl e
           | Inr ys \<Rightarrow> Inr (if b then x # ys else ys)))"

definition push :: "jsval \<Rightarrow> jsval \<Rightarrow> exn + jsval" where
  "push arr x = bindE (arrayItems arr) (\<lambda>xs. Inr (JArr (xs @ [x])))"

text \<open>\<^verbatim>\<open>xs.splice(i, 1)\<close>: the array without its element at index \<open>i\<close>.\<close>

definition splice1 :: "nat \<Rightarrow> 'a list \<Rightarrow> 'a list" where
  "splice1 i xs = take i xs @ drop (Suc i) xs"

text \<open>\<^verbatim>\<open>s.trim()\<close>.\<close>

definition trim :: "host \<Rightarrow> string \<Rightarrow> string" where
  "trim h s = rev (dropWhile (isWhiteSpace h) (rev (dropWhile (isWhiteSpace h) s)))"


section \<open>Time and billing calculator (utils/calculatePrice.js)\<close>




section \<open>Ticket identity and QR codec (utils/qrCodeUtils.js)\<close>

text \<open>
  \<^verbatim>\<open>
  export const createQRCodeData = (ticket) => {
    const qrData = {
      id: ticket.id,
      parkingName: ticket.parkingName,
      entryTime: ticket.entryTime,
      pricePerHour: ticket.pricePerHour,
      timestamp: new Date().toISOString(),
    };
    return JSON.stringify(qrData);
  };
  \<close>
  \<open>qrData\<close> is the object literal, \<open>now\<close> the clock reading.
\<close>

definition qrData :: "string \<Rightarrow> jsval \<Rightarrow> exn + jsval" where
  "qrData now ticket =
     bindE (getProp ticket ''id'') (\<lambda>vid.
     bindE (getProp ticket ''parkingName'') (\<lambda>vname.
     bindE (getProp ticket ''entryTime'') (\<lambda>ventry.
     bindE (getProp ticket ''pricePerHour'') (\<lambda>vprice.
       Inr (JObj [(''id'', vid), (''parkingName'', vname), (''entryTime'', ventry),
                  (''pricePerHour'', vprice), (''timestamp'', JStr now)])))))"

definition createQRCodeData :: "host \<Rightarrow> string \<Rightarrow> jsval \<Rightarrow> exn + string" where
  "createQRCodeData h now ticket = bindE (qrData now ticket) (\<lambda>d. Inr (jsonStringify h d))"

text \<open>
  \<^verbatim>\<open>
  export const parseQRCodeData = (scannedData) => {
    try {
      const parsed = JSON.parse(scannedData);
      if (!parsed.id || !parsed.parkingName || !parsed.entryTime ||
          parsed.pricePerHour === undefined) {
        return null;
      }
      return parsed;
    } catch (error) { ...; return null; }
  };
  \<close>
  \<open>parseQRCodeData_try\<close> is the \<^verbatim>\<open>try\<close> block (the disjunction evaluated left to
  right, as \<^verbatim>\<open>||\<close> does); the function maps whatever it throws to
  \<^verbatim>\<open>null\<close>, here \<open>None\<close>.
\<close>

definition parseQRCodeData_try :: "host \<Rightarrow> string \<Rightarrow> exn + jsval option" where
  "parseQRCodeData_try h scannedData =
     bindE (jsonParse h scannedData) (\<lambda>parsed.
     bindE (getProp parsed ''id'') (\<lambda>vid.
       if \<not> truthy vid then Inr None else
     bindE (getProp parsed ''parkingName'') (\<lambda>vname.
       if \<not> truthy vname then Inr None else
     bindE (getProp parsed ''entryTime'') (\<lambda>ventry.
       if \<not> truthy ventry then Inr None else
     bindE (getProp parsed ''pricePerHour'') (\<lambda>vprice.
       if vprice = JUndefined then Inr None else Inr (Some parsed))))))"

definition parseQRCodeData :: "host \<Rightarrow> string \<Rightarrow> jsval option" where
  "parseQRCodeData h scannedData =
     (case parseQRCodeData_try h scannedData of Inl e \<Rightarrow> None | Inr r \<Rightarrow> r)"


section \<open>Ticket repository (storage/ticketStorage.js)\<close>

text \<open>
  AsyncStorage is a key-value store of strings. A read or a write may be rejected; which
  ones are is part of the store's state, and every \<^verbatim>\<open>setItem\<close> the code attempts is
  recorded in \<open>writeLog\<close> with its outcome, in the order of the attempts. The
  \<^verbatim>\<open>async\<close> functions are run to completion one after the other (the application
  never runs two of them at once on one collection).
\<close>

record storage =
  items :: "string \<Rightarrow> string option"
  rejectsRead :: "string \<Rightarrow> bool"
  rejectsWrite :: "string \<Rightarrow> string \<Rightarrow> bool"
  writeLog :: "(string \<times> string \<times> bool) list"

definition ACTIVE_TICKETS_KEY :: string where
  "ACTIVE_TICKETS_KEY = ''@ticket_parking:active_tickets''"

definition HISTORY_TICKETS_KEY :: string where
  "HISTORY_TICKETS_KEY = ''@ticket_parking:history_tickets''"

definition getItem :: "storage \<Rightarrow> string \<Rightarrow> exn + string option" where
  "getItem st k = (if rejectsRead st k then Inl StorageError else Inr (items st k))"

definition setItem :: "storage \<Rightarrow> string \<Rightarrow> string \<Rightarrow> (exn + unit) \<times> storage" where
  "setItem st k v =
     (if rejectsWrite st k v
      then (Inl StorageError, st\<lparr>writeLog := writeLog st @ [(k, v, False)]\<rparr>)
      else (Inr (), st\<lparr>items := (items st)(k \<mapsto> v),
                        writeLog := writeLog st @ [(k, v, True)]\<rparr>))"

text \<open>
  \<^verbatim>\<open>
  const jsonValue = await AsyncStorage.getItem(KEY);
  return jsonValue ? JSON.parse(jsonValue) : [];     // catch: return [];
  \<close>
  shared by \<^verbatim>\<open>getActiveTickets\<close> and \<^verbatim>\<open>getHistoryTickets\<close>.
\<close>

definition getTickets :: "host \<Rightarrow> storage \<Rightarrow> string \<Rightarrow> jsval" where
  "getTickets h st key =
     (case getItem st key of
        Inl e \<Rightarrow> JArr []
      | Inr None \<Rightarrow> JArr []
      | Inr (Some jsonValue) \<Rightarrow>
          if jsonValue = [] then JArr []
          else (case jsonParse h jsonValue of Inl e \<Rightarrow> JArr [] | Inr v \<Rightarrow> v))"

definition getActiveTickets :: "host \<Rightarrow> storage \<Rightarrow> jsval" where
  "getActiveTickets h st = getTickets h st ACTIVE_TICKETS_KEY"

definition getHistoryTickets :: "host \<Rightarrow> storage \<Rightarrow> jsval" where
  "getHistoryTickets h st = getTickets h st HISTORY_TICKETS_KEY"

text \<open>
  \<^verbatim>\<open>
  try { await AsyncStorage.setItem(KEY, JSON.stringify(tickets)); return true; }
  catch (error) { ...; return false; }
  \<close>
  shared by \<^verbatim>\<open>saveActiveTickets\<close> and \<^verbatim>\<open>saveHistoryTickets\<close>.
\<close>

definition saveTickets :: "host \<Rightarrow> storage \<Rightarrow> string \<Rightarrow> jsval \<Rightarrow> bool \<times> storage" where
  "saveTickets h st key tickets =
     (case setItem st key (jsonStringify h tickets) of
        (Inl e, st') \<Rightarrow> (False, st')
      | (Inr u, st') \<Rightarrow> (True, st'))"

definition saveActiveTickets :: "host \<Rightarrow> storage \<Rightarrow> jsval \<Rightarrow> bool \<times> storage" where
  "saveActiveTickets h st tickets = saveTickets h st ACTIVE_TICKETS_KEY tickets"

definition saveHistoryTickets :: "host \<Rightarrow> storage \<Rightarrow> jsval \<Rightarrow> bool \<times> storage" where
  "saveHistoryTickets h st tickets = saveTickets h st HISTORY_TICKETS_KEY tickets"

text \<open>
  \<^verbatim>\<open>
  export const addTicket = async (ticket) => {
    try {
      const ticketWithId = { ...ticket, id: generateTicketId(), status: "active",
                             createdAt: new Date().toISOString() };
      ticketWithId.qrCodeData = createQRCodeData(ticketWithId);
      const tickets = await getActiveTickets();
      tickets.push(ticketWithId);
      const saved = await saveActiveTickets(tickets);
      return saved ? ticketWithId : null;
    } catch (error) { ...; return null; }
  };
  \<close>
  \<open>None\<close> is the \<^verbatim>\<open>null\<close> result.
\<close>

definition ticketWithId :: "env \<Rightarrow> jsval \<Rightarrow> (string \<times> jsval) list" where
  "ticketWithId env ticket =
     AList.update ''createdAt'' (JStr (createdAtNow env))
       (AList.update ''status'' (JStr ''active'')
          (AList.update ''id'' (JStr (newId env)) (spread ticket)))"

definition addTicket :: "host \<Rightarrow> env \<Rightarrow> storage \<Rightarrow> jsval \<Rightarrow> jsval option \<times> storage" where
  "addTicket h env st ticket =
     (case createQRCodeData h (qrNow env) (JObj (ticketWithId env ticket)) of
        Inl e \<Rightarrow> (None, st)
      | Inr qr \<Rightarrow>
          (let withQr = JObj (AList.update ''qrCodeData'' (JStr qr) (ticketWithId env ticket));
               tickets = getActiveTickets h st
           in case push tickets withQr of
                Inl e \<Rightarrow> (None, st)
              | Inr tickets' \<Rightarrow>
                  (case saveActiveTickets h st tickets' of
                     (saved, st') \<Rightarrow> (if saved then Some withQr else None, st'))))"

text \<open>
  \<^verbatim>\<open>
  export const deleteHistoryTicket = async (ticketId) => {
    try {
      const historyTickets = await getHistoryTickets();
      const filteredTickets = historyTickets.filter((t) => t.id !== ticketId);
      return await saveHistoryTickets(filteredTickets);
    } catch (error) { ...; return false; }
  };
  \<close>
\<close>

definition idIs :: "string \<Rightarrow> jsval \<Rightarrow> exn + bool" where
  "idIs ticketId t = bindE (getProp t ''id'') (\<lambda>v. Inr (v = JStr ticketId))"

definition idIsNot :: "string \<Rightarrow> jsval \<Rightarrow> exn + bool" where
  "idIsNot ticketId t = bindE (getProp t ''id'') (\<lambda>v. Inr (v \<noteq> JStr ticketId))"

definition deleteHistoryTicket :: "host \<Rightarrow> storage \<Rightarrow> string \<Rightarrow> bool \<times> storage" where
  "deleteHistoryTicket h st ticketId =
     (let historyTickets = getHistoryTickets h st in
      case bindE (arrayItems historyTickets) (filterE (idIsNot ticketId)) of
        Inl e \<Rightarrow> (False, st)
      | Inr filteredTickets \<Rightarrow> saveHistoryTickets h st (JArr filteredTickets))"

text \<open>
  \<^verbatim>\<open>
  export const closeTicket = async (ticketId, exitTime, totalAmount) => {
    try {
      const activeTickets = await getActiveTickets();
      const ticketIndex = activeTickets.findIndex((t) => t.id === ticketId);
      if (ticketIndex === -1) { ...; return false; }
      const closedTicket = { ...activeTickets[ticketIndex], exitTime, totalAmount,
                             status: "closed" };
      activeTickets.splice(ticketIndex, 1);
      await saveActiveTickets(activeTickets);
      const historyTickets = await getHistoryTickets();
      historyTickets.push(closedTicket);
      await saveHistoryTickets(historyTickets);
      return true;
    } catch (error) { ...; return false; }
  };
  \<close>
  The results of the two saves are dropped, as in the source. An exception thrown after
  the first save leaves that save in place.
\<close>

definition closedTicket :: "jsval \<Rightarrow> string \<Rightarrow> int \<Rightarrow> jsval" where
  "closedTicket t exitTime totalAmount =
     JObj (AList.update ''status'' (JStr ''closed'')
            (AList.update ''totalAmount'' (JNum totalAmount)
              (AList.update ''exitTime'' (JStr exitTime) (spread t))))"

definition closeTicket :: "host \<Rightarrow> storage \<Rightarrow> string \<Rightarrow> string \<Rightarrow> int \<Rightarrow> bool \<times> storage" where
  "closeTicket h st ticketId exitTime totalAmount =
     (let activeTickets = getActiveTickets h st in
      case arrayItems activeTickets of
        Inl e \<Rightarrow> (False, st)
      | Inr xs \<Rightarrow>
          (case findIndex (idIs ticketId) xs of
             Inl e \<Rightarrow> (False, st)
           | Inr ticketIndex \<Rightarrow>
               if ticketIndex = - 1 then (False, st)
               else
                 (let closed = closedTicket (xs ! nat ticketIndex) exitTime totalAmount;
                      st1 = snd (saveActiveTickets h st (JArr (splice1 (nat ticketIndex) xs)));
                      historyTickets = getHistoryTickets h st1
                  in case push historyTickets closed of
                       Inl e \<Rightarrow> (False, st1)
                     | Inr historyTickets' \<Rightarrow>
                         (True, snd (saveHistoryTickets h st1 historyTickets')))))"


section \<open>Opening a ticket (screens/NewTicketScreen.js, handleSave)\<close>

text \<open>
  The form state of the screen and the alert \<^verbatim>\<open>handleSave\<close> ends with.
  \<^verbatim>\<open>
  const handleSave = async () => {
    if (!parkingName.trim()) { Alert.alert("Erreur", "Veuillez entrer le nom du parking"); return; }
    const price = parseInt(pricePerHour);
    if (isNaN(price) || price <= 0) { Alert.alert("Erreur", "Veuillez entrer un tarif valide ..."); return; }
    if (!useCurrentTime && !entryTime) { Alert.alert("Erreur", "Veuillez entrer une heure d'entree"); return; }
    const newTicket = {
      parkingName: parkingName.trim(),
      entryTime: useCurrentTime ? getCurrentDateTime() : entryTime,
      pricePerHour: price,
    };
    try {
      const savedTicket = await addTicket(newTicket);
      if (savedTicket && savedTicket.id) { Alert.alert("Ticket cree avec succes!", ...); }
      else { Alert.alert("Erreur", "Impossible de creer le ticket"); }
    } catch (error) { ... }
  };
  \<close>
\<close>

record form =
  formParkingName :: string
  formPricePerHour :: string
  formEntryTime :: string
  formUseCurrentTime :: bool

datatype outcome =
    MissingParkingName
  | InvalidPrice
  | MissingEntryTime
  | TicketCreated jsval
  | CannotCreateTicket

definition newTicket :: "host \<Rightarrow> env \<Rightarrow> form \<Rightarrow> int \<Rightarrow> jsval" where
  "newTicket h env f price =
     JObj [(''parkingName'', JStr (trim h (formParkingName f))),
           (''entryTime'', JStr (if formUseCurrentTime f then entryNow env else formEntryTime f)),
           (''pricePerHour'', JNum price)]"

definition handleSave :: "host \<Rightarrow> env \<Rightarrow> storage \<Rightarrow> form \<Rightarrow> outcome \<times> storage" where
  "handleSave h env st f =
     (if trim h (formParkingName f) = [] then (MissingParkingName, st)
      else case parseInt h (formPricePerHour f) of
        None \<Rightarrow> (InvalidPrice, st)
      | Some price \<Rightarrow>
          if price \<le> 0 then (InvalidPrice, st)
          else if \<not> formUseCurrentTime f \<and> formEntryTime f = [] then (MissingEntryTime, st)
          else
            (case addTicket h env st (newTicket h env f price) of
               (None, st') \<Rightarrow> (CannotCreateTicket, st')
             | (Some savedTicket, st') \<Rightarrow>
                 (case getProp savedTicket ''id'' of
                    Inl e \<Rightarrow> (CannotCreateTicket, st')
                  | Inr v \<Rightarrow>
                      if truthy v then (TicketCreated savedTicket, st')
                      else (CannotCreateTicket, st'))))"


section \<open>Notions used in the statements\<close>

text \<open>A value has the property \<open>k\<close> when it is an object that binds \<open>k\<close>; a property is
  missing from a parsed payload when the payload does not have it.\<close>

definition hasProp :: "jsval \<Rightarrow> string \<Rightarrow> bool" where
  "hasProp v k = (case v of JObj kvs \<Rightarrow> map_of kvs k \<noteq> None | _ \<Rightarrow> False)"

text \<open>A collection (the value read from one of the two storage keys) holds a ticket with a
  given id when it is an array with an element whose \<^verbatim>\<open>id\<close> is that string.\<close>

definition hasTicket :: "string \<Rightarrow> jsval \<Rightarrow> bool" where
  "hasTicket ticketId collection =
     (case collection of
        JArr xs \<Rightarrow> list_ex (\<lambda>t. getProp t ''id'' = Inr (JStr ticketId)) xs
      | _ \<Rightarrow> False)"

text \<open>The number of tickets with a given id in a list of tickets; ids are unique when
  it is at most one.\<close>

definition idCount :: "string \<Rightarrow> jsval list \<Rightarrow> nat" where
  "idCount ticketId xs = length (filter (\<lambda>t. getProp t ''id'' = Inr (JStr ticketId)) xs)"


section \<open>A sample host, for running the model on concrete inputs\<close>

text \<open>
  The sample host serialises values as compact JSON text (strings quoted with the quote
  and the backslash escaped, an \<^verbatim>\<open>undefined\<close> property left out, an
  \<^verbatim>\<open>undefined\<close> array element written \<^verbatim>\<open>null\<close>), parses exactly the texts of
  the documents listed in \<open>sampleDocs\<close>, knows the time value of five instants, and
  treats the space as white space.
\<close>

definition escapeChar :: "char \<Rightarrow> string" where
  "escapeChar c =
     (if c = CHR 0x22 then [CHR 0x5C, CHR 0x22]
      else if c = CHR 0x5C then [CHR 0x5C, CHR 0x5C]
      else [c])"

definition jsonQuote :: "string \<Rightarrow> string" where
  "jsonQuote s = CHR 0x22 # concat (map escapeChar s) @ [CHR 0x22]"

definition showInt :: "int \<Rightarrow> string" where
  "showInt i = (if i < 0 then CHR ''-'' # showNat (nat (- i)) else showNat (nat i))"

fun commaSep :: "string list \<Rightarrow> string" where
  "commaSep [] = []"
| "commaSep [x] = x"
| "commaSep (x # y # ys) = x @ CHR '','' # commaSep (y # ys)"

fun sampleStringify :: "jsval \<Rightarrow> string" where
  "sampleStringify JUndefined = []"
| "sampleStringify JNull = ''null''"
| "sampleStringify (JBool b) = (if b then ''true'' else ''false'')"
| "sampleStringify (JNum n) = showInt n"
| "sampleStringify (JStr s) = jsonQuote s"
| "sampleStringify (JArr xs) =
     ''['' @ commaSep (map (\<lambda>x. if x = JUndefined then ''null'' else sampleStringify x) xs)
     @ '']''"
| "sampleStringify (JObj kvs) =
     ''{'' @ commaSep (map (\<lambda>kv. jsonQuote (fst kv) @ '':'' @ sampleStringify (snd kv))
                        (filter (\<lambda>kv. snd kv \<noteq> JUndefined) kvs))
     @ ''}''"

declare sampleStringify.simps [simp del]

definition sampleDates :: "(string \<times> int) list" where
  "sampleDates =
     [(''2025-01-20T14:30:00.000Z'', 1737383400000),
      (''2025-01-20T14:31:00.000Z'', 1737383460000),
      (''2025-01-20T15:30:00.000Z'', 1737387000000),
      (''2025-01-20T15:31:00.000Z'', 1737387060000),
      (''2025-01-20T16:35:00.000Z'', 1737390900000)]"

text \<open>The sample scenario: a ticket for ``Central Lot'' at 50 per hour, opened at 14:30
  and closed 125 minutes later for 150.\<close>

definition sampleEnv :: env where
  "sampleEnv = \<lparr>
     newId = ''1b9d6bcd-bbfd-4b2d-9b5d-ab8dfbbd4bed'',
     entryNow = ''2025-01-20T14:30:00.000Z'',
     createdAtNow = ''2025-01-20T14:30:00.000Z'',
     qrNow = ''2025-01-20T14:30:00.000Z'' \<rparr>"

definition sampleForm :: form where
  "sampleForm = \<lparr>
     formParkingName = '' Central Lot '',
     formPricePerHour = ''50'',
     formEntryTime = [],
     formUseCurrentTime = True \<rparr>"

definition samplePayload :: "int \<Rightarrow> jsval" where
  "samplePayload price =
     JObj [(''id'', JStr ''1b9d6bcd-bbfd-4b2d-9b5d-ab8dfbbd4bed''),
           (''parkingName'', JStr ''Central Lot''),
           (''entryTime'', JStr ''2025-01-20T14:30:00.000Z''),
           (''pricePerHour'', JNum price),
           (''timestamp'', JStr ''2025-01-20T14:30:00.000Z'')]"

definition payloadWithoutPrice :: jsval where
  "payloadWithoutPrice =
     JObj [(''id'', JStr ''1b9d6bcd-bbfd-4b2d-9b5d-ab8dfbbd4bed''),
           (''parkingName'', JStr ''Central Lot''),
           (''entryTime'', JStr ''2025-01-20T14:30:00.000Z''),
           (''timestamp'', JStr ''2025-01-20T14:30:00.000Z'')]"

definition sampleTicket :: jsval where
  "sampleTicket =
     JObj [(''parkingName'', JStr ''Central Lot''),
           (''entryTime'', JStr ''2025-01-20T14:30:00.000Z''),
           (''pricePerHour'', JNum 50),
           (''id'', JStr ''1b9d6bcd-bbfd-4b2d-9b5d-ab8dfbbd4bed''),
           (''status'', JStr ''active''),
           (''createdAt'', JStr ''2025-01-20T14:30:00.000Z''),
           (''qrCodeData'', JStr (sampleStringify (samplePayload 50)))]"

definition sampleClosedTicket :: jsval where
  "sampleClosedTicket =
     JObj [(''parkingName'', JStr ''Central Lot''),
           (''entryTime'', JStr ''2025-01-20T14:30:00.000Z''),
           (''pricePerHour'', JNum 50),
           (''id'', JStr ''1b9d6bcd-bbfd-4b2d-9b5d-ab8dfbbd4bed''),
           (''status'', JStr ''closed''),
           (''createdAt'', JStr ''2025-01-20T14:30:00.000Z''),
           (''qrCodeData'', JStr (sampleStringify (samplePayload 50))),
           (''exitTime'', JStr ''2025-01-20T16:35:00.000Z''),
           (''totalAmount'', JNum 150)]"

definition sampleDocs :: "jsval list" where
  "sampleDocs =
     [JArr [], samplePayload 50, samplePayload 0, payloadWithoutPrice,
      JArr [sampleTicket], JArr [sampleClosedTicket]]"

definition sampleParse :: "string \<Rightarrow> exn + jsval" where
  "sampleParse s =
     (case find (\<lambda>d. sampleStringify d = s) sampleDocs of
        None \<Rightarrow> Inl SyntaxError
      | Some d \<Rightarrow> Inr d)"

definition sampleHost :: host where
  "sampleHost = \<lparr>
     dateParse = map_of sampleDates,
     jsonParse = sampleParse,
     jsonStringify = sampleStringify,
     parseInt = map_of [(''50'', 50), (''0'', 0), (''-5'', - 5)],
     isWhiteSpace = (\<lambda>c. c = CHR '' '') \<rparr>"

text \<open>Stores: an empty one, one whose active collection holds the sample ticket, the same
  with every write rejected, and one whose history holds the closed sample ticket.\<close>

definition emptyStore :: storage where
  "emptyStore = \<lparr>
     items = (\<lambda>k. None),
     rejectsRead = (\<lambda>k. False),
     rejectsWrite = (\<lambda>k v. False),
     writeLog = [] \<rparr>"

definition activeStore :: storage where
  "activeStore = emptyStore\<lparr>
     items := [ACTIVE_TICKETS_KEY \<mapsto> sampleStringify (JArr [sampleTicket])] \<rparr>"

definition fullStore :: storage where
  "fullStore = activeStore\<lparr> rejectsWrite := (\<lambda>k v. True) \<rparr>"

definition closedStore :: storage where
  "closedStore = emptyStore\<lparr>
     items := [ACTIVE_TICKETS_KEY \<mapsto> sampleStringify (JArr []),
               HISTORY_TICKETS_KEY \<mapsto> sampleStringify (JArr [sampleClosedTicket])] \<rparr>"


section \<open>Basic facts\<close>

lemma bindE_Inl [simp]: "bindE (Inl e) f = Inl e"
  by (simp add: bindE_def)

lemma bindE_Inr [simp]: "bindE (Inr x) f = f x"
  by (simp add: bindE_def)

lemma keys_differ [simp]:
  "ACTIVE_TICKETS_KEY \<noteq> HISTORY_TICKETS_KEY" "HISTORY_TICKETS_KEY \<noteq> ACTIVE_TICKETS_KEY"
  by (simp_all add: ACTIVE_TICKETS_KEY_def HISTORY_TICKETS_KEY_def)

lemmas sample_defs =
  sampleHost_def sampleParse_def sampleDocs_def sampleDates_def sampleEnv_def sampleForm_def
  samplePayload_def payloadWithoutPrice_def sampleTicket_def sampleClosedTicket_def
  emptyStore_def activeStore_def fullStore_def closedStore_def
  sampleStringify.simps jsonQuote_def escapeChar_def showInt_def digitChar_def

lemma sampleStringify_array_text [simp]: "sampleStringify (JArr xs) \<noteq> []"
  by (simp add: sampleStringify.simps)



section \<open>The calculator: duration and fee\<close>













section \<open>The QR codec\<close>

text \<open>The sample host on the sample documents: the JSON text it writes, and what it reads back.\<close>

lemma payload_texts:
  \<open>sampleStringify (samplePayload 50) =
     ''{"id":"1b9d6bcd-bbfd-4b2d-9b5d-ab8dfbbd4bed","parkingName":"Central Lot","entryTime":"2025-01-20T14:30:00.000Z","pricePerHour":50,"timestamp":"2025-01-20T14:30:00.000Z"}''\<close>
  \<open>sampleStringify (samplePayload 0) =
     ''{"id":"1b9d6bcd-bbfd-4b2d-9b5d-ab8dfbbd4bed","parkingName":"Central Lot","entryTime":"2025-01-20T14:30:00.000Z","pricePerHour":0,"timestamp":"2025-01-20T14:30:00.000Z"}''\<close>
  \<open>sampleStringify payloadWithoutPrice =
     ''{"id":"1b9d6bcd-bbfd-4b2d-9b5d-ab8dfbbd4bed","parkingName":"Central Lot","entryTime":"2025-01-20T14:30:00.000Z","timestamp":"2025-01-20T14:30:00.000Z"}''\<close>
  \<open>sampleStringify (JArr []) = ''[]''\<close>
  by (simp_all add: sample_defs)

lemma sample_parse:
  "jsonParse sampleHost (sampleStringify (samplePayload 50)) = Inr (samplePayload 50)"
  "jsonParse sampleHost (sampleStringify (samplePayload 0)) = Inr (samplePayload 0)"
  "jsonParse sampleHost (sampleStringify payloadWithoutPrice) = Inr payloadWithoutPrice"
  "jsonParse sampleHost (sampleStringify (JArr [])) = Inr (JArr [])"
  "jsonParse sampleHost (sampleStringify (JArr [sampleTicket])) = Inr (JArr [sampleTicket])"
  "jsonParse sampleHost (sampleStringify (JArr [sampleClosedTicket])) = Inr (JArr [sampleClosedTicket])"
  "jsonParse sampleHost ''not json'' = Inl SyntaxError"
  by (simp_all add: sample_defs)

lemma parseQRCodeData_parse_error:
  "jsonParse h s = Inl e \<Longrightarrow> parseQRCodeData h s = None"
  by (simp add: parseQRCodeData_def parseQRCodeData_try_def)

lemma parseQRCodeData_missing:
  assumes "jsonParse h s = Inr v"
    and "\<not> hasProp v ''id'' \<or> \<not> hasProp v ''parkingName'' \<or> \<not> hasProp v ''entryTime''
         \<or> \<not> hasProp v ''pricePerHour''"
  shows "parseQRCodeData h s = None"
proof (cases v)
  case (JObj kvs)
  with assms(2) have "map_of kvs ''id'' = None \<or> map_of kvs ''parkingName'' = None
      \<or> map_of kvs ''entryTime'' = None \<or> map_of kvs ''pricePerHour'' = None"
    by (simp add: hasProp_def)
  with JObj assms(1) show ?thesis
    by (auto simp: parseQRCodeData_def parseQRCodeData_try_def split: option.splits)
qed (use assms(1) in \<open>simp_all add: parseQRCodeData_def parseQRCodeData_try_def\<close>)

lemma parseQRCodeData_accepts:
  assumes "jsonParse h s = Inr (JObj kvs)"
    and "map_of kvs ''id'' = Some vid" "truthy vid"
    and "map_of kvs ''parkingName'' = Some vname" "truthy vname"
    and "map_of kvs ''entryTime'' = Some ventry" "truthy ventry"
    and "map_of kvs ''pricePerHour'' = Some vprice" "vprice \<noteq> JUndefined"
  shows "parseQRCodeData h s = Some (JObj kvs)"
  using assms by (simp add: parseQRCodeData_def parseQRCodeData_try_def)

text \<open>
  Claim C3. For every input string \<open>parseQRCodeData\<close> returns \<^verbatim>\<open>null\<close> (here
  \<open>None\<close>), never an exception, when the text fails to parse or when any of
  \<^verbatim>\<open>id\<close>, \<^verbatim>\<open>parkingName\<close>, \<^verbatim>\<open>entryTime\<close>, \<^verbatim>\<open>pricePerHour\<close> is
  missing from the parsed payload. Whatever the \<^verbatim>\<open>try\<close> block throws becomes
  \<^verbatim>\<open>null\<close>. A payload whose \<^verbatim>\<open>pricePerHour\<close> is the number 0 (and whose
  other three fields are present and truthy) is accepted: it is returned as parsed.
\<close>

theorem parseQRCodeData_contract:
  "(\<forall>e. jsonParse h s = Inl e \<longrightarrow> parseQRCodeData h s = None)
   \<and> (\<forall>e. parseQRCodeData_try h s = Inl e \<longrightarrow> parseQRCodeData h s = None)
   \<and> (\<forall>v. jsonParse h s = Inr v \<and>
          (\<not> hasProp v ''id'' \<or> \<not> hasProp v ''parkingName'' \<or> \<not> hasProp v ''entryTime''
           \<or> \<not> hasProp v ''pricePerHour'') \<longrightarrow> parseQRCodeData h s = None)
   \<and> (\<forall>kvs vid vname ventry.
          jsonParse h s = Inr (JObj kvs)
          \<and> map_of kvs ''id'' = Some vid \<and> truthy vid
          \<and> map_of kvs ''parkingName'' = Some vname \<and> truthy vname
          \<and> map_of kvs ''entryTime'' = Some ventry \<and> truthy ventry
          \<and> map_of kvs ''pricePerHour'' = Some (JNum 0) \<longrightarrow>
          parseQRCodeData h s = Some (JObj kvs))"
proof (intro conjI allI impI)
  fix e assume "jsonParse h s = Inl e"
  then show "parseQRCodeData h s = None" by (rule parseQRCodeData_parse_error)
next
  fix e assume "parseQRCodeData_try h s = Inl e"
  then show "parseQRCodeData h s = None" by (simp add: parseQRCodeData_def)
next
  fix v assume "jsonParse h s = Inr v \<and>
          (\<not> hasProp v ''id'' \<or> \<not> hasProp v ''parkingName'' \<or> \<not> hasProp v ''entryTime''
           \<or> \<not> hasProp v ''pricePerHour'')"
  then show "parseQRCodeData h s = None" using parseQRCodeData_missing by blast
next
  fix kvs vid vname ventry
  assume "jsonParse h s = Inr (JObj kvs)
          \<and> map_of kvs ''id'' = Some vid \<and> truthy vid
          \<and> map_of kvs ''parkingName'' = Some vname \<and> truthy vname
          \<and> map_of kvs ''entryTime'' = Some ventry \<and> truthy ventry
          \<and> map_of kvs ''pricePerHour'' = Some (JNum 0)"
  then show "parseQRCodeData h s = Some (JObj kvs)"
    by (intro parseQRCodeData_accepts[where vprice = "JNum 0"]) auto
qed

theorem parseQRCodeData_contract_witness:
  \<open>parseQRCodeData sampleHost ''not json'' = None
   \<and> parseQRCodeData sampleHost
        ''{"id":"1b9d6bcd-bbfd-4b2d-9b5d-ab8dfbbd4bed","parkingName":"Central Lot","entryTime":"2025-01-20T14:30:00.000Z","timestamp":"2025-01-20T14:30:00.000Z"}''
       = None
   \<and> parseQRCodeData sampleHost
        ''{"id":"1b9d6bcd-bbfd-4b2d-9b5d-ab8dfbbd4bed","parkingName":"Central Lot","entryTime":"2025-01-20T14:30:00.000Z","pricePerHour":0,"timestamp":"2025-01-20T14:30:00.000Z"}''
       = Some (samplePayload 0)\<close>
proof -
  have "parseQRCodeData sampleHost ''not json'' = None"
    using parseQRCodeData_contract[of sampleHost "''not json''"] sample_parse(7)
    by blast
  moreover
  have "\<not> hasProp payloadWithoutPrice ''pricePerHour''"
    by (simp add: hasProp_def payloadWithoutPrice_def)
  then have "parseQRCodeData sampleHost (sampleStringify payloadWithoutPrice) = None"
    using parseQRCodeData_contract[of sampleHost "sampleStringify payloadWithoutPrice"]
      sample_parse(3)
    by blast
  moreover
  have "parseQRCodeData sampleHost (sampleStringify (samplePayload 0)) = Some (samplePayload 0)"
    using parseQRCodeData_contract[of sampleHost "sampleStringify (samplePayload 0)"]
      sample_parse(2)
    by (simp add: samplePayload_def)
  ultimately show ?thesis
    by (simp add: payload_texts)
qed





section \<open>The repository: reads, writes and searches\<close>

lemma saveTickets_eq:
  "saveTickets h st key v =
     (if rejectsWrite st key (jsonStringify h v)
      then (False, st\<lparr>writeLog := writeLog st @ [(key, jsonStringify h v, False)]\<rparr>)
      else (True, st\<lparr>items := (items st)(key \<mapsto> jsonStringify h v),
                       writeLog := writeLog st @ [(key, jsonStringify h v, True)]\<rparr>))"
  by (simp add: saveTickets_def setItem_def)

lemma saveTickets_fst:
  "fst (saveTickets h st key v) = (\<not> rejectsWrite st key (jsonStringify h v))"
  by (simp add: saveTickets_eq)

lemma saveTickets_rejects [simp]:
  "rejectsWrite (snd (saveTickets h st key v)) = rejectsWrite st"
  "rejectsRead (snd (saveTickets h st key v)) = rejectsRead st"
  by (simp_all add: saveTickets_eq)

lemma saveTickets_items_other:
  "key' \<noteq> key \<Longrightarrow> items (snd (saveTickets h st key v)) key' = items st key'"
  by (simp add: saveTickets_eq)

lemma saveTickets_items_same:
  "items (snd (saveTickets h st key v)) key =
     (if rejectsWrite st key (jsonStringify h v) then items st key else Some (jsonStringify h v))"
  by (simp add: saveTickets_eq)

lemma saveTickets_log:
  "writeLog (snd (saveTickets h st key v)) =
     writeLog st @ [(key, jsonStringify h v, \<not> rejectsWrite st key (jsonStringify h v))]"
  by (simp add: saveTickets_eq)

lemma getTickets_cong:
  "items st' key = items st key \<Longrightarrow> rejectsRead st' key = rejectsRead st key \<Longrightarrow>
   getTickets h st' key = getTickets h st key"
  by (simp add: getTickets_def getItem_def)

lemma getTickets_after_save_other:
  "key' \<noteq> key \<Longrightarrow> getTickets h (snd (saveTickets h st key v)) key' = getTickets h st key'"
  by (rule getTickets_cong) (simp_all add: saveTickets_items_other)

lemma getTickets_nonempty_readable:
  "getTickets h st key = JArr (x # xs) \<Longrightarrow> \<not> rejectsRead st key"
  by (auto simp: getTickets_def getItem_def)

lemma getTickets_read_back:
  assumes "\<not> rejectsRead st key" "items st key = Some text"
    and "jsonParse h text = Inr (JArr xs)"
  shows "getTickets h st key = JArr xs \<or> getTickets h st key = JArr []"
  using assms by (simp add: getTickets_def getItem_def)

lemma arrayItems_JArr [simp]: "arrayItems (JArr xs) = Inr xs"
  by (simp add: arrayItems_def)

lemma arrayItems_Inr: "arrayItems v = Inr xs \<Longrightarrow> v = JArr xs"
  by (cases v) (simp_all add: arrayItems_def)

lemma push_JArr [simp]: "push (JArr xs) x = Inr (JArr (xs @ [x]))"
  by (simp add: push_def)

lemma push_Inr: "push v x = Inr w \<Longrightarrow> \<exists>xs. v = JArr xs \<and> w = JArr (xs @ [x])"
  by (cases v) (simp_all add: push_def arrayItems_def)

lemma getProp_id_object:
  "getProp t k = Inr (JStr s) \<Longrightarrow> \<exists>kvs. t = JObj kvs \<and> map_of kvs k = Some (JStr s)"
  by (cases t) (auto split: option.splits)

lemma idIs_eq: "idIs ticketId t = Inr b \<Longrightarrow> b = (getProp t ''id'' = Inr (JStr ticketId))"
  by (cases "getProp t ''id''") (auto simp: idIs_def)

lemma idIs_True: "(idIs ticketId t = Inr True) = (getProp t ''id'' = Inr (JStr ticketId))"
  by (cases "getProp t ''id''") (auto simp: idIs_def)

lemma findIndexFrom_found:
  "findIndexFrom p i xs = Inr j \<Longrightarrow> j \<noteq> - 1 \<or> i = - 1 \<Longrightarrow> 0 \<le> i \<Longrightarrow>
   i \<le> j \<and> nat (j - i) < length xs \<and> p (xs ! nat (j - i)) = Inr True
   \<and> (\<forall>k < nat (j - i). p (xs ! k) = Inr False)"
proof (induction xs arbitrary: i)
  case Nil
  then show ?case by simp
next
  case (Cons x xs)
  show ?case
  proof (cases "p x")
    case (Inl e)
    with Cons.prems show ?thesis by simp
  next
    case (Inr b)
    show ?thesis
    proof (cases b)
      case True
      with Inr Cons.prems show ?thesis by simp
    next
      case False
      with Inr Cons.prems have r: "findIndexFrom p (i + 1) xs = Inr j" by simp
      from Cons.prems have nz: "j \<noteq> - 1" by auto
      from Cons.IH[OF r] nz Cons.prems(3)
      have ih: "i + 1 \<le> j" "nat (j - (i + 1)) < length xs"
        "p (xs ! nat (j - (i + 1))) = Inr True"
        "\<forall>k < nat (j - (i + 1)). p (xs ! k) = Inr False"
        by auto
      from ih(1) have s: "nat (j - i) = Suc (nat (j - (i + 1)))" by linarith
      have "\<forall>k < nat (j - i). p ((x # xs) ! k) = Inr False"
      proof (intro allI impI)
        fix k assume "k < nat (j - i)"
        then show "p ((x # xs) ! k) = Inr False"
          using ih(4) Inr False s by (cases k) auto
      qed
      with ih s show ?thesis by simp
    qed
  qed
qed

lemma findIndex_found:
  assumes "findIndex p xs = Inr j" "j \<noteq> - 1"
  shows "0 \<le> j \<and> nat j < length xs \<and> p (xs ! nat j) = Inr True
         \<and> (\<forall>k < nat j. p (xs ! k) = Inr False)"
  using findIndexFrom_found[of p 0 xs j] assms by (simp add: findIndex_def)

lemma hasTicket_JArr:
  "hasTicket ticketId (JArr xs) = (\<exists>t \<in> set xs. getProp t ''id'' = Inr (JStr ticketId))"
  by (simp add: hasTicket_def list_ex_iff)

lemma findIndex_hasTicket:
  assumes "findIndex (idIs ticketId) xs = Inr j" "j \<noteq> - 1"
  shows "hasTicket ticketId (JArr xs)"
proof -
  from findIndex_found[OF assms] have "nat j < length xs"
    and "idIs ticketId (xs ! nat j) = Inr True" by auto
  then show ?thesis
    unfolding hasTicket_JArr idIs_True using nth_mem by blast
qed

lemma closeTicket_not_found:
  assumes "\<not> hasTicket ticketId (getActiveTickets h st)"
  shows "closeTicket h st ticketId exitTime totalAmount = (False, st)"
proof (cases "arrayItems (getActiveTickets h st)")
  case (Inl e)
  then show ?thesis by (simp add: closeTicket_def)
next
  case (Inr xs)
  then have a: "getActiveTickets h st = JArr xs" by (rule arrayItems_Inr)
  show ?thesis
  proof (cases "findIndex (idIs ticketId) xs")
    case (Inl e)
    with Inr show ?thesis by (simp add: closeTicket_def)
  next
    case r: (Inr j)
    with assms a have "j = - 1" using findIndex_hasTicket by fastforce
    with Inr r show ?thesis by (simp add: closeTicket_def)
  qed
qed

lemma closeTicket_found:
  assumes "getActiveTickets h st = JArr A" "findIndex (idIs ticketId) A = Inr i" "i \<noteq> - 1"
    and "getHistoryTickets h st = JArr H"
  shows "closeTicket h st ticketId exitTime totalAmount =
           (True, snd (saveHistoryTickets h (snd (saveActiveTickets h st (JArr (splice1 (nat i) A))))
                    (JArr (H @ [closedTicket (A ! nat i) exitTime totalAmount]))))"
proof -
  have "getHistoryTickets h (snd (saveActiveTickets h st (JArr (splice1 (nat i) A)))) = JArr H"
    using assms(4) by (simp add: getHistoryTickets_def saveActiveTickets_def getTickets_after_save_other)
  then show ?thesis
    using assms(1,2,3) by (simp add: closeTicket_def Let_def)
qed

lemma closeTicket_True:
  assumes "closeTicket h st ticketId exitTime totalAmount = (True, st')"
  shows "\<exists>A H i. getActiveTickets h st = JArr A \<and> getHistoryTickets h st = JArr H
           \<and> findIndex (idIs ticketId) A = Inr i \<and> i \<noteq> - 1"
proof -
  obtain A where a: "getActiveTickets h st = JArr A"
    using assms by (cases "getActiveTickets h st") (simp_all add: closeTicket_def arrayItems_def)
  obtain i where i: "findIndex (idIs ticketId) A = Inr i" "i \<noteq> - 1"
    using assms a by (cases "findIndex (idIs ticketId) A") (auto simp: closeTicket_def split: if_splits)
  let ?st1 = "snd (saveActiveTickets h st (JArr (splice1 (nat i) A)))"
  have same: "getHistoryTickets h ?st1 = getHistoryTickets h st"
    by (simp add: getHistoryTickets_def saveActiveTickets_def getTickets_after_save_other)
  obtain H where "getHistoryTickets h ?st1 = JArr H"
    using assms a i
    by (cases "getHistoryTickets h ?st1") (simp_all add: closeTicket_def Let_def push_def arrayItems_def)
  with same have "getHistoryTickets h st = JArr H" by simp
  with a i show ?thesis by blast
qed

text \<open>The sample stores, read and searched.\<close>

lemma sample_reads:
  "getActiveTickets sampleHost activeStore = JArr [sampleTicket]"
  "getHistoryTickets sampleHost activeStore = JArr []"
  "getActiveTickets sampleHost fullStore = JArr [sampleTicket]"
  "getHistoryTickets sampleHost fullStore = JArr []"
  "getActiveTickets sampleHost closedStore = JArr []"
  "getHistoryTickets sampleHost closedStore = JArr [sampleClosedTicket]"
  "getActiveTickets sampleHost emptyStore = JArr []"
  "getHistoryTickets sampleHost emptyStore = JArr []"
  using sample_parse(4,5,6)
  by (simp_all add: getActiveTickets_def getHistoryTickets_def getTickets_def getItem_def
      activeStore_def fullStore_def closedStore_def emptyStore_def)

lemma sample_find:
  "findIndex (idIs ''1b9d6bcd-bbfd-4b2d-9b5d-ab8dfbbd4bed'') [sampleTicket] = Inr 0"
  by (simp add: findIndex_def idIs_def sampleTicket_def)

lemma sample_closed:
  "closedTicket sampleTicket ''2025-01-20T16:35:00.000Z'' 150 = sampleClosedTicket"
  by (simp add: closedTicket_def sampleTicket_def sampleClosedTicket_def)

lemma sample_close:
  "closeTicket sampleHost activeStore ''1b9d6bcd-bbfd-4b2d-9b5d-ab8dfbbd4bed''
     ''2025-01-20T16:35:00.000Z'' 150 =
   (True, closedStore\<lparr>writeLog :=
      [(ACTIVE_TICKETS_KEY, sampleStringify (JArr []), True),
       (HISTORY_TICKETS_KEY, sampleStringify (JArr [sampleClosedTicket]), True)]\<rparr>)"
proof -
  have "items (snd (saveHistoryTickets sampleHost
          (snd (saveActiveTickets sampleHost activeStore (JArr [])))
          (JArr [sampleClosedTicket]))) = items closedStore"
    by (rule ext)
      (simp add: saveHistoryTickets_def saveActiveTickets_def saveTickets_eq activeStore_def
        emptyStore_def closedStore_def sampleHost_def)
  then show ?thesis
    using closeTicket_found[OF sample_reads(1) sample_find _ sample_reads(2),
        of "''2025-01-20T16:35:00.000Z''" 150]
    by (simp add: splice1_def sample_closed saveHistoryTickets_def saveActiveTickets_def
        saveTickets_eq activeStore_def emptyStore_def closedStore_def sampleHost_def)
qed


section \<open>Closing a ticket\<close>

text \<open>
  Claim C6. For every id that the active collection does not hold, \<open>closeTicket\<close>
  returns \<^verbatim>\<open>false\<close> without raising and leaves the store as it was: no write is
  attempted, so both collections are unchanged. The history is not consulted: an id
  held only by the historical collection fails in the same way, and so does a second
  close of a ticket that was already closed.
\<close>

theorem closeTicket_unknown_id_fails:
  assumes "\<not> hasTicket ticketId (getActiveTickets h st)"
  shows "closeTicket h st ticketId exitTime totalAmount = (False, st)"
  using assms by (rule closeTicket_not_found)

lemma sample_second_store:
  "getActiveTickets sampleHost
     (closedStore\<lparr>writeLog :=
        [(ACTIVE_TICKETS_KEY, sampleStringify (JArr []), True),
         (HISTORY_TICKETS_KEY, sampleStringify (JArr [sampleClosedTicket]), True)]\<rparr>) = JArr []"
  using sample_parse(4)
  by (simp add: getActiveTickets_def getTickets_def getItem_def closedStore_def emptyStore_def)

theorem closeTicket_unknown_id_fails_witness:
  "hasTicket ''1b9d6bcd-bbfd-4b2d-9b5d-ab8dfbbd4bed'' (getHistoryTickets sampleHost closedStore)
   \<and> closeTicket sampleHost closedStore ''1b9d6bcd-bbfd-4b2d-9b5d-ab8dfbbd4bed''
        ''2025-01-20T16:35:00.000Z'' 150 = (False, closedStore)
   \<and> fst (closeTicket sampleHost activeStore ''1b9d6bcd-bbfd-4b2d-9b5d-ab8dfbbd4bed''
        ''2025-01-20T16:35:00.000Z'' 150) = True
   \<and> closeTicket sampleHost
        (snd (closeTicket sampleHost activeStore ''1b9d6bcd-bbfd-4b2d-9b5d-ab8dfbbd4bed''
               ''2025-01-20T16:35:00.000Z'' 150))
        ''1b9d6bcd-bbfd-4b2d-9b5d-ab8dfbbd4bed'' ''2025-01-20T16:35:00.000Z'' 150
      = (False, snd (closeTicket sampleHost activeStore ''1b9d6bcd-bbfd-4b2d-9b5d-ab8dfbbd4bed''
               ''2025-01-20T16:35:00.000Z'' 150))"
proof -
  have "hasTicket ''1b9d6bcd-bbfd-4b2d-9b5d-ab8dfbbd4bed'' (getHistoryTickets sampleHost closedStore)"
    by (simp add: sample_reads hasTicket_def sampleClosedTicket_def)
  moreover
  have "\<not> hasTicket ''1b9d6bcd-bbfd-4b2d-9b5d-ab8dfbbd4bed'' (getActiveTickets sampleHost closedStore)"
    by (simp add: sample_reads hasTicket_def)
  then have "closeTicket sampleHost closedStore ''1b9d6bcd-bbfd-4b2d-9b5d-ab8dfbbd4bed''
        ''2025-01-20T16:35:00.000Z'' 150 = (False, closedStore)"
    by (rule closeTicket_unknown_id_fails)
  moreover
  have "\<not> hasTicket ''1b9d6bcd-bbfd-4b2d-9b5d-ab8dfbbd4bed''
          (getActiveTickets sampleHost
             (snd (closeTicket sampleHost activeStore ''1b9d6bcd-bbfd-4b2d-9b5d-ab8dfbbd4bed''
                ''2025-01-20T16:35:00.000Z'' 150)))"
    by (simp add: sample_close sample_second_store hasTicket_def)
  then have "closeTicket sampleHost
        (snd (closeTicket sampleHost activeStore ''1b9d6bcd-bbfd-4b2d-9b5d-ab8dfbbd4bed''
               ''2025-01-20T16:35:00.000Z'' 150))
        ''1b9d6bcd-bbfd-4b2d-9b5d-ab8dfbbd4bed'' ''2025-01-20T16:35:00.000Z'' 150
      = (False, snd (closeTicket sampleHost activeStore ''1b9d6bcd-bbfd-4b2d-9b5d-ab8dfbbd4bed''
               ''2025-01-20T16:35:00.000Z'' 150))"
    by (rule closeTicket_unknown_id_fails)
  ultimately show ?thesis
    by (simp add: sample_close)
qed

lemma addTicket_reports_rejected_write:
  assumes "addTicket h env st ticket = (r, st')"
    and "\<exists>k v. (k, v, False) \<in> set (writeLog st') - set (writeLog st)"
  shows "r = None"
  using assms
  by (auto simp: addTicket_def Let_def saveActiveTickets_def saveTickets_eq
      split: sum.splits if_splits)

lemma deleteHistoryTicket_reports_rejected_write:
  assumes "deleteHistoryTicket h st ticketId = (r, st')"
    and "\<exists>k v. (k, v, False) \<in> set (writeLog st') - set (writeLog st)"
  shows "r = False"
  using assms
  by (auto simp: deleteHistoryTicket_def Let_def saveHistoryTickets_def saveTickets_eq
      split: sum.splits if_splits)

text \<open>
  Claim C8 says that every mutating operation reports a rejected storage write as a
  failure. \<open>addTicket\<close> and \<open>deleteHistoryTicket\<close> do (the two lemmas below);
  \<open>closeTicket\<close> drops the results of both of its saves and returns \<^verbatim>\<open>true\<close>.
  On the store that holds the sample ticket and rejects every write, closing the ticket
  attempts both writes, both are rejected, nothing is persisted, and the result is
  \<^verbatim>\<open>true\<close>.
\<close>

theorem closeTicket_reports_success_on_rejected_writes:
  "getActiveTickets sampleHost fullStore = JArr [sampleTicket]
   \<and> getHistoryTickets sampleHost fullStore = JArr []
   \<and> rejectsWrite fullStore = (\<lambda>k v. True)
   \<and> closeTicket sampleHost fullStore ''1b9d6bcd-bbfd-4b2d-9b5d-ab8dfbbd4bed''
        ''2025-01-20T16:35:00.000Z'' 150 =
      (True, fullStore\<lparr>writeLog :=
         [(ACTIVE_TICKETS_KEY, sampleStringify (JArr []), False),
          (HISTORY_TICKETS_KEY, sampleStringify (JArr [sampleClosedTicket]), False)]\<rparr>)"
proof -
  have "closeTicket sampleHost fullStore ''1b9d6bcd-bbfd-4b2d-9b5d-ab8dfbbd4bed''
        ''2025-01-20T16:35:00.000Z'' 150 =
      (True, fullStore\<lparr>writeLog :=
         [(ACTIVE_TICKETS_KEY, sampleStringify (JArr []), False),
          (HISTORY_TICKETS_KEY, sampleStringify (JArr [sampleClosedTicket]), False)]\<rparr>)"
    using closeTicket_found[OF sample_reads(3) sample_find _ sample_reads(4),
        of "''2025-01-20T16:35:00.000Z''" 150]
    by (simp add: splice1_def sample_closed saveHistoryTickets_def saveActiveTickets_def
        saveTickets_eq fullStore_def activeStore_def emptyStore_def sampleHost_def)
  moreover have "rejectsWrite fullStore = (\<lambda>k v. True)"
    by (simp add: fullStore_def)
  ultimately show ?thesis
    using sample_reads(3,4) by blast
qed


lemma closedTicket_object:
  "closedTicket (JObj kvs) exitTime totalAmount =
     JObj (AList.update ''status'' (JStr ''closed'')
            (AList.update ''totalAmount'' (JNum totalAmount)
              (AList.update ''exitTime'' (JStr exitTime) kvs)))"
  by (simp add: closedTicket_def)

lemma closedTicket_fields:
  "map_of (AList.update ''status'' (JStr ''closed'')
            (AList.update ''totalAmount'' (JNum totalAmount)
              (AList.update ''exitTime'' (JStr exitTime) kvs))) =
   (map_of kvs)(''exitTime'' \<mapsto> JStr exitTime, ''totalAmount'' \<mapsto> JNum totalAmount,
                ''status'' \<mapsto> JStr ''closed'')"
  by (simp add: update_conv')

text \<open>
  Claim C9. When \<open>closeTicket\<close> succeeds (returns \<^verbatim>\<open>true\<close>), the ticket was found
  in the active collection as an object \<open>kvs\<close>, and the record \<open>kvs'\<close> that is appended
  to the historical collection and written under the history key (the last write of
  the call; it is stored unless the store rejects it) is that object with
  \<^verbatim>\<open>exitTime\<close>, \<^verbatim>\<open>totalAmount\<close> and \<^verbatim>\<open>status = "closed"\<close> set and every
  other property unchanged: in particular \<^verbatim>\<open>id\<close>, \<^verbatim>\<open>parkingName\<close>,
  \<^verbatim>\<open>pricePerHour\<close>, \<^verbatim>\<open>entryTime\<close>, \<^verbatim>\<open>createdAt\<close> and the QR payload
  \<^verbatim>\<open>qrCodeData\<close>.
\<close>

theorem closeTicket_frame:
  assumes "closeTicket h st ticketId exitTime totalAmount = (True, st')"
  shows "\<exists>A H i kvs kvs'.
           getActiveTickets h st = JArr A \<and> getHistoryTickets h st = JArr H
           \<and> i < length A \<and> A ! i = JObj kvs \<and> map_of kvs ''id'' = Some (JStr ticketId)
           \<and> closedTicket (A ! i) exitTime totalAmount = JObj kvs'
           \<and> last (writeLog st') =
               (HISTORY_TICKETS_KEY, jsonStringify h (JArr (H @ [JObj kvs'])),
                \<not> rejectsWrite st HISTORY_TICKETS_KEY (jsonStringify h (JArr (H @ [JObj kvs']))))
           \<and> items st' HISTORY_TICKETS_KEY =
               (if rejectsWrite st HISTORY_TICKETS_KEY (jsonStringify h (JArr (H @ [JObj kvs'])))
                then items st HISTORY_TICKETS_KEY
                else Some (jsonStringify h (JArr (H @ [JObj kvs']))))
           \<and> map_of kvs' ''exitTime'' = Some (JStr exitTime)
           \<and> map_of kvs' ''totalAmount'' = Some (JNum totalAmount)
           \<and> map_of kvs' ''status'' = Some (JStr ''closed'')
           \<and> (\<forall>k. k \<notin> {''exitTime'', ''totalAmount'', ''status''} \<longrightarrow>
                  map_of kvs' k = map_of kvs k)
           \<and> map_of kvs' ''id'' = map_of kvs ''id''
           \<and> map_of kvs' ''parkingName'' = map_of kvs ''parkingName''
           \<and> map_of kvs' ''pricePerHour'' = map_of kvs ''pricePerHour''
           \<and> map_of kvs' ''entryTime'' = map_of kvs ''entryTime''
           \<and> map_of kvs' ''createdAt'' = map_of kvs ''createdAt''
           \<and> map_of kvs' ''qrCodeData'' = map_of kvs ''qrCodeData''"
proof -
  from closeTicket_True[OF assms] obtain A H i where
    a: "getActiveTickets h st = JArr A" and hh: "getHistoryTickets h st = JArr H"
    and i: "findIndex (idIs ticketId) A = Inr i" "i \<noteq> - 1"
    by blast
  from findIndex_found[OF i] have len: "nat i < length A"
    and "idIs ticketId (A ! nat i) = Inr True"
    by auto
  then have "getProp (A ! nat i) ''id'' = Inr (JStr ticketId)"
    by (simp add: idIs_True)
  then obtain kvs where kvs: "A ! nat i = JObj kvs" "map_of kvs ''id'' = Some (JStr ticketId)"
    using getProp_id_object by blast
  define kvs' where "kvs' = AList.update ''status'' (JStr ''closed'')
            (AList.update ''totalAmount'' (JNum totalAmount)
              (AList.update ''exitTime'' (JStr exitTime) kvs))"
  have c: "closedTicket (A ! nat i) exitTime totalAmount = JObj kvs'"
    by (simp add: kvs(1) closedTicket_object kvs'_def)
  have m: "map_of kvs' = (map_of kvs)(''exitTime'' \<mapsto> JStr exitTime,
      ''totalAmount'' \<mapsto> JNum totalAmount, ''status'' \<mapsto> JStr ''closed'')"
    unfolding kvs'_def by (rule closedTicket_fields)
  let ?st1 = "snd (saveActiveTickets h st (JArr (splice1 (nat i) A)))"
  have st': "st' = snd (saveHistoryTickets h ?st1 (JArr (H @ [JObj kvs'])))"
    using closeTicket_found[OF a i hh, of exitTime totalAmount] assms c by simp
  have r: "rejectsWrite ?st1 = rejectsWrite st"
    by (simp add: saveActiveTickets_def)
  have it: "items ?st1 HISTORY_TICKETS_KEY = items st HISTORY_TICKETS_KEY"
    by (simp add: saveActiveTickets_def saveTickets_items_other)
  have l: "last (writeLog st') =
               (HISTORY_TICKETS_KEY, jsonStringify h (JArr (H @ [JObj kvs'])),
                \<not> rejectsWrite st HISTORY_TICKETS_KEY (jsonStringify h (JArr (H @ [JObj kvs']))))"
    by (simp add: st' saveHistoryTickets_def saveTickets_log r)
  have w: "items st' HISTORY_TICKETS_KEY =
               (if rejectsWrite st HISTORY_TICKETS_KEY (jsonStringify h (JArr (H @ [JObj kvs'])))
                then items st HISTORY_TICKETS_KEY
                else Some (jsonStringify h (JArr (H @ [JObj kvs']))))"
    by (simp add: st' saveHistoryTickets_def saveTickets_items_same r it)
  have f: "\<forall>k. k \<notin> {''exitTime'', ''totalAmount'', ''status''} \<longrightarrow> map_of kvs' k = map_of kvs k"
    by (simp add: m)
  show ?thesis
    apply (rule exI[of _ A], rule exI[of _ H], rule exI[of _ "nat i"], rule exI[of _ kvs],
        rule exI[of _ kvs'])
    using a hh len kvs c l w f by (simp add: m)
qed

theorem closeTicket_frame_witness:
  "\<exists>A H i kvs kvs'.
     getActiveTickets sampleHost activeStore = JArr A
     \<and> getHistoryTickets sampleHost activeStore = JArr H
     \<and> i < length A \<and> A ! i = JObj kvs
     \<and> map_of kvs ''id'' = Some (JStr ''1b9d6bcd-bbfd-4b2d-9b5d-ab8dfbbd4bed'')
     \<and> closedTicket (A ! i) ''2025-01-20T16:35:00.000Z'' 150 = JObj kvs'
     \<and> last (writeLog (closedStore\<lparr>writeLog :=
          [(ACTIVE_TICKETS_KEY, sampleStringify (JArr []), True),
           (HISTORY_TICKETS_KEY, sampleStringify (JArr [sampleClosedTicket]), True)]\<rparr>)) =
         (HISTORY_TICKETS_KEY, jsonStringify sampleHost (JArr (H @ [JObj kvs'])),
          \<not> rejectsWrite activeStore HISTORY_TICKETS_KEY
               (jsonStringify sampleHost (JArr (H @ [JObj kvs']))))
     \<and> items (closedStore\<lparr>writeLog :=
          [(ACTIVE_TICKETS_KEY, sampleStringify (JArr []), True),
           (HISTORY_TICKETS_KEY, sampleStringify (JArr [sampleClosedTicket]), True)]\<rparr>)
          HISTORY_TICKETS_KEY =
         (if rejectsWrite activeStore HISTORY_TICKETS_KEY
               (jsonStringify sampleHost (JArr (H @ [JObj kvs'])))
          then items activeStore HISTORY_TICKETS_KEY
          else Some (jsonStringify sampleHost (JArr (H @ [JObj kvs']))))
     \<and> map_of kvs' ''exitTime'' = Some (JStr ''2025-01-20T16:35:00.000Z'')
     \<and> map_of kvs' ''totalAmount'' = Some (JNum 150)
     \<and> map_of kvs' ''status'' = Some (JStr ''closed'')
     \<and> (\<forall>k. k \<notin> {''exitTime'', ''totalAmount'', ''status''} \<longrightarrow>
            map_of kvs' k = map_of kvs k)
     \<and> map_of kvs' ''id'' = map_of kvs ''id''
     \<and> map_of kvs' ''parkingName'' = map_of kvs ''parkingName''
     \<and> map_of kvs' ''pricePerHour'' = map_of kvs ''pricePerHour''
     \<and> map_of kvs' ''entryTime'' = map_of kvs ''entryTime''
     \<and> map_of kvs' ''createdAt'' = map_of kvs ''createdAt''
     \<and> map_of kvs' ''qrCodeData'' = map_of kvs ''qrCodeData''"
  by (rule closeTicket_frame[OF sample_close])

lemma filter_splice1:
  assumes "i < length A" "P (A ! i)"
  shows "length (filter P A) = Suc (length (filter P (splice1 i A)))"
proof -
  have "A = take i A @ A ! i # drop (Suc i) A"
    using assms(1) by (rule id_take_nth_drop)
  then have "filter P A = filter P (take i A) @ A ! i # filter P (drop (Suc i) A)"
    using assms(2) by (metis filter.simps(2) filter_append)
  then show ?thesis
    by (simp add: splice1_def)
qed

lemma idCount_zero: "idCount ticketId xs = 0 \<Longrightarrow> \<not> hasTicket ticketId (JArr xs)"
  by (simp add: idCount_def hasTicket_JArr filter_empty_conv)

text \<open>
  Claim C10. Within \<open>closeTicket\<close> the active collection without the ticket is
  persisted before the closed ticket is appended to the history and persisted: the
  write log grows by the write of the active key followed by the write of the history
  key. When both writes are accepted, the id is unique across the two collections and
  the host reads back the array it wrote, the store \<open>st1\<close> between the two writes holds
  the ticket in neither collection, while the store before the call held it in the
  active one.
\<close>

theorem closeTicket_write_order:
  assumes "getActiveTickets h st = JArr A" "getHistoryTickets h st = JArr H"
    and "findIndex (idIs ticketId) A = Inr i" "i \<noteq> - 1"
    and "idCount ticketId (A @ H) = 1"
    and "\<not> rejectsWrite st ACTIVE_TICKETS_KEY (jsonStringify h (JArr (splice1 (nat i) A)))"
    and "\<not> rejectsWrite st HISTORY_TICKETS_KEY
           (jsonStringify h (JArr (H @ [closedTicket (A ! nat i) exitTime totalAmount])))"
    and "jsonParse h (jsonStringify h (JArr (splice1 (nat i) A))) = Inr (JArr (splice1 (nat i) A))"
  shows "\<exists>st1 st2.
           saveActiveTickets h st (JArr (splice1 (nat i) A)) = (True, st1)
           \<and> saveHistoryTickets h st1
                (JArr (H @ [closedTicket (A ! nat i) exitTime totalAmount])) = (True, st2)
           \<and> closeTicket h st ticketId exitTime totalAmount = (True, st2)
           \<and> writeLog st2 = writeLog st @
                [(ACTIVE_TICKETS_KEY, jsonStringify h (JArr (splice1 (nat i) A)), True),
                 (HISTORY_TICKETS_KEY,
                  jsonStringify h (JArr (H @ [closedTicket (A ! nat i) exitTime totalAmount])),
                  True)]
           \<and> hasTicket ticketId (getActiveTickets h st)
           \<and> items st1 ACTIVE_TICKETS_KEY = Some (jsonStringify h (JArr (splice1 (nat i) A)))
           \<and> items st1 HISTORY_TICKETS_KEY = items st HISTORY_TICKETS_KEY
           \<and> \<not> hasTicket ticketId (getActiveTickets h st1)
           \<and> \<not> hasTicket ticketId (getHistoryTickets h st1)"
proof -
  let ?A' = "splice1 (nat i) A"
  let ?c = "closedTicket (A ! nat i) exitTime totalAmount"
  let ?P = "\<lambda>t. getProp t ''id'' = Inr (JStr ticketId)"
  define st1 where "st1 = snd (saveActiveTickets h st (JArr ?A'))"
  define st2 where "st2 = snd (saveHistoryTickets h st1 (JArr (H @ [?c])))"
  from findIndex_found[OF assms(3,4)] have len: "nat i < length A"
    and "idIs ticketId (A ! nat i) = Inr True"
    by auto
  then have p: "?P (A ! nat i)"
    by (simp add: idIs_True)
  have s1: "saveActiveTickets h st (JArr ?A') = (True, st1)"
    using assms(6) by (simp add: st1_def saveActiveTickets_def saveTickets_eq)
  have r1: "rejectsWrite st1 = rejectsWrite st" "rejectsRead st1 = rejectsRead st"
    by (simp_all add: st1_def saveActiveTickets_def)
  have s2: "saveHistoryTickets h st1 (JArr (H @ [?c])) = (True, st2)"
    using assms(7) by (simp add: st2_def saveHistoryTickets_def saveTickets_eq r1)
  have c: "closeTicket h st ticketId exitTime totalAmount = (True, st2)"
    using closeTicket_found[OF assms(1,3,4,2), of exitTime totalAmount]
    by (simp add: st1_def st2_def)
  have l: "writeLog st2 = writeLog st @
                [(ACTIVE_TICKETS_KEY, jsonStringify h (JArr ?A'), True),
                 (HISTORY_TICKETS_KEY, jsonStringify h (JArr (H @ [?c])), True)]"
    using assms(6,7)
    by (simp add: st2_def st1_def saveHistoryTickets_def saveActiveTickets_def saveTickets_log)
  have before: "hasTicket ticketId (getActiveTickets h st)"
    using findIndex_hasTicket[OF assms(3,4)] assms(1) by simp
  have i1: "items st1 ACTIVE_TICKETS_KEY = Some (jsonStringify h (JArr ?A'))"
    using assms(6) by (simp add: st1_def saveActiveTickets_def saveTickets_items_same)
  have i2: "items st1 HISTORY_TICKETS_KEY = items st HISTORY_TICKETS_KEY"
    by (simp add: st1_def saveActiveTickets_def saveTickets_items_other)
  have "idCount ticketId A = Suc (idCount ticketId ?A')"
    unfolding idCount_def using len p by (rule filter_splice1)
  with assms(5) have z: "idCount ticketId ?A' = 0" "idCount ticketId H = 0"
    by (simp_all add: idCount_def)
  have "A \<noteq> []" using len by auto
  then have "\<not> rejectsRead st ACTIVE_TICKETS_KEY"
    using assms(1) getTickets_nonempty_readable[of h st ACTIVE_TICKETS_KEY]
    by (cases A) (simp_all add: getActiveTickets_def)
  then have "getActiveTickets h st1 = JArr ?A' \<or> getActiveTickets h st1 = JArr []"
    unfolding getActiveTickets_def
    using i1 assms(8) r1(2) by (intro getTickets_read_back) simp_all
  then have n1: "\<not> hasTicket ticketId (getActiveTickets h st1)"
    using idCount_zero[OF z(1)] by (auto simp: hasTicket_JArr)
  have "getHistoryTickets h st1 = JArr H"
    using assms(2)
    by (simp add: st1_def getHistoryTickets_def saveActiveTickets_def getTickets_after_save_other)
  then have n2: "\<not> hasTicket ticketId (getHistoryTickets h st1)"
    using idCount_zero[OF z(2)] by simp
  show ?thesis
    using s1 s2 c l before i1 i2 n1 n2 by blast
qed

lemma sample_idCount:
  "idCount ''1b9d6bcd-bbfd-4b2d-9b5d-ab8dfbbd4bed'' ([sampleTicket] @ []) = 1"
  by (simp add: idCount_def sampleTicket_def)

theorem closeTicket_write_order_witness:
  "\<exists>st1 st2.
     saveActiveTickets sampleHost activeStore (JArr (splice1 (nat 0) [sampleTicket])) = (True, st1)
     \<and> saveHistoryTickets sampleHost st1
          (JArr ([] @ [closedTicket ([sampleTicket] ! nat 0) ''2025-01-20T16:35:00.000Z'' 150]))
         = (True, st2)
     \<and> closeTicket sampleHost activeStore ''1b9d6bcd-bbfd-4b2d-9b5d-ab8dfbbd4bed''
          ''2025-01-20T16:35:00.000Z'' 150 = (True, st2)
     \<and> writeLog st2 = writeLog activeStore @
          [(ACTIVE_TICKETS_KEY,
            jsonStringify sampleHost (JArr (splice1 (nat 0) [sampleTicket])), True),
           (HISTORY_TICKETS_KEY,
            jsonStringify sampleHost
              (JArr ([] @ [closedTicket ([sampleTicket] ! nat 0) ''2025-01-20T16:35:00.000Z'' 150])),
            True)]
     \<and> hasTicket ''1b9d6bcd-bbfd-4b2d-9b5d-ab8dfbbd4bed'' (getActiveTickets sampleHost activeStore)
     \<and> items st1 ACTIVE_TICKETS_KEY =
          Some (jsonStringify sampleHost (JArr (splice1 (nat 0) [sampleTicket])))
     \<and> items st1 HISTORY_TICKETS_KEY = items activeStore HISTORY_TICKETS_KEY
     \<and> \<not> hasTicket ''1b9d6bcd-bbfd-4b2d-9b5d-ab8dfbbd4bed'' (getActiveTickets sampleHost st1)
     \<and> \<not> hasTicket ''1b9d6bcd-bbfd-4b2d-9b5d-ab8dfbbd4bed'' (getHistoryTickets sampleHost st1)"
proof (rule closeTicket_write_order[OF sample_reads(1) sample_reads(2) sample_find _ sample_idCount])
  show "(0::int) \<noteq> - 1"
    by simp
  show "\<not> rejectsWrite activeStore ACTIVE_TICKETS_KEY
          (jsonStringify sampleHost (JArr (splice1 (nat 0) [sampleTicket])))"
    by (simp add: activeStore_def emptyStore_def)
  show "\<not> rejectsWrite activeStore HISTORY_TICKETS_KEY
          (jsonStringify sampleHost
            (JArr ([] @ [closedTicket ([sampleTicket] ! nat 0) ''2025-01-20T16:35:00.000Z'' 150])))"
    by (simp add: activeStore_def emptyStore_def)
  show "jsonParse sampleHost (jsonStringify sampleHost (JArr (splice1 (nat 0) [sampleTicket])))
          = Inr (JArr (splice1 (nat 0) [sampleTicket]))"
    using sample_parse(4) by (simp add: splice1_def sampleHost_def)
qed


section \<open>Deleting from the history\<close>

lemma idIsNot_object:
  "t \<noteq> JNull \<Longrightarrow> t \<noteq> JUndefined \<Longrightarrow>
   idIsNot ticketId t = Inr (getProp t ''id'' \<noteq> Inr (JStr ticketId))"
  by (cases t) (simp_all add: idIsNot_def)

lemma filterE_idIsNot:
  "JNull \<notin> set xs \<Longrightarrow> JUndefined \<notin> set xs \<Longrightarrow>
   filterE (idIsNot ticketId) xs =
     Inr (filter (\<lambda>t. getProp t ''id'' \<noteq> Inr (JStr ticketId)) xs)"
proof (induction xs)
  case Nil
  then show ?case by simp
next
  case (Cons x xs)
  then have "x \<noteq> JNull" "x \<noteq> JUndefined" by auto
  then have "idIsNot ticketId x = Inr (getProp x ''id'' \<noteq> Inr (JStr ticketId))"
    by (rule idIsNot_object)
  with Cons show ?case by simp
qed

lemma deleteHistoryTicket_active_untouched:
  "items (snd (deleteHistoryTicket h st ticketId)) ACTIVE_TICKETS_KEY = items st ACTIVE_TICKETS_KEY"
  "rejectsRead (snd (deleteHistoryTicket h st ticketId)) = rejectsRead st"
  by (simp_all add: deleteHistoryTicket_def Let_def saveHistoryTickets_def saveTickets_items_other
      split: sum.splits)

lemma deleteHistoryTicket_objects:
  assumes "getHistoryTickets h st = JArr H" "JNull \<notin> set H" "JUndefined \<notin> set H"
  shows "deleteHistoryTicket h st ticketId =
           saveHistoryTickets h st
             (JArr (filter (\<lambda>t. getProp t ''id'' \<noteq> Inr (JStr ticketId)) H))"
  using assms by (simp add: deleteHistoryTicket_def filterE_idIsNot)

lemma filter_absent:
  "\<not> hasTicket ticketId (JArr H) \<Longrightarrow>
   filter (\<lambda>t. getProp t ''id'' \<noteq> Inr (JStr ticketId)) H = H"
  by (simp add: hasTicket_JArr filter_id_conv)

text \<open>
  Claim C7, as amended. \<open>deleteHistoryTicket\<close> removes the tickets with the given id
  from the historical collection only and never modifies the active collection: the
  active key keeps its text and reads as before, so deleting an active ticket's id
  neither closes nor removes it. It filters the history and writes the result back;
  its result is the outcome of that write. When the id is not present in the
  historical collection the tickets written back are the ones read, and the result is
  \<^verbatim>\<open>true\<close> when the store accepts the write: a success, not the failure the claim
  states. (The history is taken to hold no \<^verbatim>\<open>null\<close> element, on which the filter
  callback would throw.)
\<close>

theorem deleteHistoryTicket_history_only:
  "items (snd (deleteHistoryTicket h st ticketId)) ACTIVE_TICKETS_KEY = items st ACTIVE_TICKETS_KEY
   \<and> getActiveTickets h (snd (deleteHistoryTicket h st ticketId)) = getActiveTickets h st
   \<and> (\<forall>H. getHistoryTickets h st = JArr H \<and> JNull \<notin> set H \<and> JUndefined \<notin> set H \<longrightarrow>
        (let kept = filter (\<lambda>t. getProp t ''id'' \<noteq> Inr (JStr ticketId)) H;
             text = jsonStringify h (JArr kept)
         in \<not> hasTicket ticketId (JArr kept)
            \<and> (\<not> hasTicket ticketId (JArr H) \<longrightarrow> kept = H)
            \<and> fst (deleteHistoryTicket h st ticketId)
                = (\<not> rejectsWrite st HISTORY_TICKETS_KEY text)
            \<and> writeLog (snd (deleteHistoryTicket h st ticketId))
                = writeLog st @
                    [(HISTORY_TICKETS_KEY, text, \<not> rejectsWrite st HISTORY_TICKETS_KEY text)]
            \<and> items (snd (deleteHistoryTicket h st ticketId)) HISTORY_TICKETS_KEY
                = (if rejectsWrite st HISTORY_TICKETS_KEY text
                   then items st HISTORY_TICKETS_KEY else Some text)))"
proof (intro conjI allI impI)
  show "items (snd (deleteHistoryTicket h st ticketId)) ACTIVE_TICKETS_KEY
          = items st ACTIVE_TICKETS_KEY"
    by (rule deleteHistoryTicket_active_untouched)
  show "getActiveTickets h (snd (deleteHistoryTicket h st ticketId)) = getActiveTickets h st"
    unfolding getActiveTickets_def
    by (rule getTickets_cong) (simp_all add: deleteHistoryTicket_active_untouched)
next
  fix H
  assume a: "getHistoryTickets h st = JArr H \<and> JNull \<notin> set H \<and> JUndefined \<notin> set H"
  let ?kept = "filter (\<lambda>t. getProp t ''id'' \<noteq> Inr (JStr ticketId)) H"
  have d: "deleteHistoryTicket h st ticketId = saveHistoryTickets h st (JArr ?kept)"
    using a by (simp add: deleteHistoryTicket_objects)
  have 1: "\<not> hasTicket ticketId (JArr ?kept)"
    by (simp add: hasTicket_JArr)
  have 2: "\<not> hasTicket ticketId (JArr H) \<longrightarrow> ?kept = H"
    using filter_absent by blast
  show "let kept = ?kept; text = jsonStringify h (JArr kept)
         in \<not> hasTicket ticketId (JArr kept)
            \<and> (\<not> hasTicket ticketId (JArr H) \<longrightarrow> kept = H)
            \<and> fst (deleteHistoryTicket h st ticketId)
                = (\<not> rejectsWrite st HISTORY_TICKETS_KEY text)
            \<and> writeLog (snd (deleteHistoryTicket h st ticketId))
                = writeLog st @
                    [(HISTORY_TICKETS_KEY, text, \<not> rejectsWrite st HISTORY_TICKETS_KEY text)]
            \<and> items (snd (deleteHistoryTicket h st ticketId)) HISTORY_TICKETS_KEY
                = (if rejectsWrite st HISTORY_TICKETS_KEY text
                   then items st HISTORY_TICKETS_KEY else Some text)"
    unfolding Let_def d saveHistoryTickets_def
    using 1 2 by (simp add: saveTickets_fst saveTickets_log saveTickets_items_same)
qed

theorem deleteHistoryTicket_history_only_witness:
  "hasTicket ''1b9d6bcd-bbfd-4b2d-9b5d-ab8dfbbd4bed'' (getHistoryTickets sampleHost closedStore)
   \<and> fst (deleteHistoryTicket sampleHost closedStore ''1b9d6bcd-bbfd-4b2d-9b5d-ab8dfbbd4bed'')
   \<and> items (snd (deleteHistoryTicket sampleHost closedStore
        ''1b9d6bcd-bbfd-4b2d-9b5d-ab8dfbbd4bed'')) HISTORY_TICKETS_KEY
      = Some (sampleStringify (JArr []))
   \<and> items (snd (deleteHistoryTicket sampleHost closedStore
        ''1b9d6bcd-bbfd-4b2d-9b5d-ab8dfbbd4bed'')) ACTIVE_TICKETS_KEY
      = items closedStore ACTIVE_TICKETS_KEY"
proof -
  have h: "hasTicket ''1b9d6bcd-bbfd-4b2d-9b5d-ab8dfbbd4bed''
            (getHistoryTickets sampleHost closedStore)"
    by (simp add: sample_reads hasTicket_def sampleClosedTicket_def)
  have o: "JNull \<notin> set [sampleClosedTicket] \<and> JUndefined \<notin> set [sampleClosedTicket]"
    by (simp add: sampleClosedTicket_def)
  have k: "getProp sampleClosedTicket ''id'' = Inr (JStr ''1b9d6bcd-bbfd-4b2d-9b5d-ab8dfbbd4bed'')"
    by (simp add: sampleClosedTicket_def)
  have r: "\<not> rejectsWrite closedStore HISTORY_TICKETS_KEY (sampleStringify (JArr []))"
    by (simp add: closedStore_def emptyStore_def)
  have j: "jsonStringify sampleHost = sampleStringify"
    by (simp add: sampleHost_def)
  from deleteHistoryTicket_history_only[of sampleHost closedStore
      "''1b9d6bcd-bbfd-4b2d-9b5d-ab8dfbbd4bed''"] sample_reads(6) o
  show ?thesis
    using h r by (simp add: Let_def k j)
qed

text \<open>The claim as stated fails on the store whose history is empty and whose active
  collection holds the sample ticket: deleting that ticket's id from the history
  writes the empty history back and returns \<^verbatim>\<open>true\<close>.\<close>

theorem deleteHistoryTicket_absent_id_counterexample:
  "\<not> hasTicket ''1b9d6bcd-bbfd-4b2d-9b5d-ab8dfbbd4bed'' (getHistoryTickets sampleHost activeStore)
   \<and> fst (deleteHistoryTicket sampleHost activeStore ''1b9d6bcd-bbfd-4b2d-9b5d-ab8dfbbd4bed'')
       = True
   \<and> writeLog (snd (deleteHistoryTicket sampleHost activeStore
        ''1b9d6bcd-bbfd-4b2d-9b5d-ab8dfbbd4bed''))
       = [(HISTORY_TICKETS_KEY, sampleStringify (JArr []), True)]"
proof -
  have d: "deleteHistoryTicket sampleHost activeStore ''1b9d6bcd-bbfd-4b2d-9b5d-ab8dfbbd4bed''
          = saveHistoryTickets sampleHost activeStore (JArr [])"
    using deleteHistoryTicket_objects[OF sample_reads(2), of "''1b9d6bcd-bbfd-4b2d-9b5d-ab8dfbbd4bed''"]
    by simp
  have "\<not> hasTicket ''1b9d6bcd-bbfd-4b2d-9b5d-ab8dfbbd4bed''
          (getHistoryTickets sampleHost activeStore)"
    by (simp add: sample_reads hasTicket_def)
  moreover
  have "saveHistoryTickets sampleHost activeStore (JArr []) =
          (True, activeStore\<lparr>
             items := (items activeStore)(HISTORY_TICKETS_KEY \<mapsto> sampleStringify (JArr [])),
             writeLog := [(HISTORY_TICKETS_KEY, sampleStringify (JArr []), True)]\<rparr>)"
    by (simp add: saveHistoryTickets_def saveTickets_eq activeStore_def emptyStore_def
        sampleHost_def)
  ultimately show ?thesis
    by (simp add: d)
qed


section \<open>Opening a ticket\<close>

lemma trim_empty [simp]: "trim h [] = []"
  by (simp add: trim_def)

lemma ticketWithId_newTicket:
  "ticketWithId env (newTicket h env f price) =
     [(''parkingName'', JStr (trim h (formParkingName f))),
      (''entryTime'', JStr (if formUseCurrentTime f then entryNow env else formEntryTime f)),
      (''pricePerHour'', JNum price),
      (''id'', JStr (newId env)),
      (''status'', JStr ''active''),
      (''createdAt'', JStr (createdAtNow env))]"
  by (simp add: ticketWithId_def newTicket_def)

lemma addTicket_array:
  assumes "getActiveTickets h st = JArr A"
    and "createQRCodeData h (qrNow env) (JObj (ticketWithId env ticket)) = Inr qr"
  shows "addTicket h env st ticket =
           (let t = JObj (AList.update ''qrCodeData'' (JStr qr) (ticketWithId env ticket));
                text = jsonStringify h (JArr (A @ [t]))
            in if rejectsWrite st ACTIVE_TICKETS_KEY text
               then (None, st\<lparr>writeLog := writeLog st @ [(ACTIVE_TICKETS_KEY, text, False)]\<rparr>)
               else (Some t, st\<lparr>items := (items st)(ACTIVE_TICKETS_KEY \<mapsto> text),
                                 writeLog := writeLog st @ [(ACTIVE_TICKETS_KEY, text, True)]\<rparr>))"
  using assms by (simp add: addTicket_def Let_def saveActiveTickets_def saveTickets_eq)

text \<open>
  Claim C5. Opening a ticket (\<open>handleSave\<close>, which validates the form and then calls
  \<open>addTicket\<close>) rejects an empty (or blank) parking name and a rate that is not a
  strictly positive number with a validation error, before any persistence attempt:
  the store, its write log included, is unchanged. On valid input it calls
  \<open>addTicket\<close>, and when the store accepts the write the result is the fully populated
  ticket (the trimmed name, the entry time, the rate, the minted id, status
  \<^verbatim>\<open>active\<close>, the \<^verbatim>\<open>createdAt\<close> stamp and the QR payload), written to the
  active key as the last element of the active collection. When the store rejects the
  write, the result is the failure \<open>CannotCreateTicket\<close> and nothing is persisted.
\<close>

theorem handleSave_validates_then_opens:
  "(trim h (formParkingName f) = [] \<longrightarrow> handleSave h env st f = (MissingParkingName, st))
   \<and> (formParkingName f = [] \<longrightarrow> handleSave h env st f = (MissingParkingName, st))
   \<and> (trim h (formParkingName f) \<noteq> []
        \<and> (parseInt h (formPricePerHour f) = None
            \<or> (\<exists>p. parseInt h (formPricePerHour f) = Some p \<and> p \<le> 0)) \<longrightarrow>
        handleSave h env st f = (InvalidPrice, st))
   \<and> (\<forall>name price A.
        trim h (formParkingName f) = name \<and> name \<noteq> []
        \<and> parseInt h (formPricePerHour f) = Some price \<and> 0 < price
        \<and> (formUseCurrentTime f \<or> formEntryTime f \<noteq> [])
        \<and> newId env \<noteq> []
        \<and> getActiveTickets h st = JArr A \<longrightarrow>
        (let entry = (if formUseCurrentTime f then entryNow env else formEntryTime f);
             payload = JObj [(''id'', JStr (newId env)),
                             (''parkingName'', JStr name),
                             (''entryTime'', JStr entry),
                             (''pricePerHour'', JNum price),
                             (''timestamp'', JStr (qrNow env))];
             ticket = JObj [(''parkingName'', JStr name),
                            (''entryTime'', JStr entry),
                            (''pricePerHour'', JNum price),
                            (''id'', JStr (newId env)),
                            (''status'', JStr ''active''),
                            (''createdAt'', JStr (createdAtNow env)),
                            (''qrCodeData'', JStr (jsonStringify h payload))];
             text = jsonStringify h (JArr (A @ [ticket]))
         in handleSave h env st f =
              (if rejectsWrite st ACTIVE_TICKETS_KEY text
               then (CannotCreateTicket,
                     st\<lparr>writeLog := writeLog st @ [(ACTIVE_TICKETS_KEY, text, False)]\<rparr>)
               else (TicketCreated ticket,
                     st\<lparr>items := (items st)(ACTIVE_TICKETS_KEY \<mapsto> text),
                        writeLog := writeLog st @ [(ACTIVE_TICKETS_KEY, text, True)]\<rparr>))))"
proof (intro conjI allI impI)
  assume "trim h (formParkingName f) = []"
  then show "handleSave h env st f = (MissingParkingName, st)"
    by (simp add: handleSave_def)
next
  assume "formParkingName f = []"
  then show "handleSave h env st f = (MissingParkingName, st)"
    by (simp add: handleSave_def)
next
  assume "trim h (formParkingName f) \<noteq> []
        \<and> (parseInt h (formPricePerHour f) = None
            \<or> (\<exists>p. parseInt h (formPricePerHour f) = Some p \<and> p \<le> 0))"
  then show "handleSave h env st f = (InvalidPrice, st)"
    by (auto simp: handleSave_def)
next
  fix name price A
  assume a: "trim h (formParkingName f) = name \<and> name \<noteq> []
        \<and> parseInt h (formPricePerHour f) = Some price \<and> 0 < price
        \<and> (formUseCurrentTime f \<or> formEntryTime f \<noteq> [])
        \<and> newId env \<noteq> []
        \<and> getActiveTickets h st = JArr A"
  let ?entry = "if formUseCurrentTime f then entryNow env else formEntryTime f"
  let ?payload = "JObj [(''id'', JStr (newId env)),
                             (''parkingName'', JStr name),
                             (''entryTime'', JStr ?entry),
                             (''pricePerHour'', JNum price),
                             (''timestamp'', JStr (qrNow env))]"
  have q: "createQRCodeData h (qrNow env) (JObj (ticketWithId env (newTicket h env f price)))
             = Inr (jsonStringify h ?payload)"
    using a by (simp add: createQRCodeData_def qrData_def ticketWithId_newTicket)
  from a have arr: "getActiveTickets h st = JArr A" by simp
  show "let entry = ?entry;
             payload = JObj [(''id'', JStr (newId env)),
                             (''parkingName'', JStr name),
                             (''entryTime'', JStr entry),
                             (''pricePerHour'', JNum price),
                             (''timestamp'', JStr (qrNow env))];
             ticket = JObj [(''parkingName'', JStr name),
                            (''entryTime'', JStr entry),
                            (''pricePerHour'', JNum price),
                            (''id'', JStr (newId env)),
                            (''status'', JStr ''active''),
                            (''createdAt'', JStr (createdAtNow env)),
                            (''qrCodeData'', JStr (jsonStringify h payload))];
             text = jsonStringify h (JArr (A @ [ticket]))
         in handleSave h env st f =
              (if rejectsWrite st ACTIVE_TICKETS_KEY text
               then (CannotCreateTicket,
                     st\<lparr>writeLog := writeLog st @ [(ACTIVE_TICKETS_KEY, text, False)]\<rparr>)
               else (TicketCreated ticket,
                     st\<lparr>items := (items st)(ACTIVE_TICKETS_KEY \<mapsto> text),
                        writeLog := writeLog st @ [(ACTIVE_TICKETS_KEY, text, True)]\<rparr>))"
    using a
    by (simp add: handleSave_def addTicket_array[OF arr q] Let_def ticketWithId_newTicket)
qed

lemma sample_form:
  "trim sampleHost (formParkingName sampleForm) = ''Central Lot''"
  "parseInt sampleHost ''50'' = Some 50"
  "parseInt sampleHost ''0'' = Some 0"
  "parseInt sampleHost ''-5'' = Some (- 5)"
  "parseInt sampleHost ''abc'' = None"
  "trim sampleHost ''   '' = []"
  by (simp_all add: trim_def sampleHost_def sampleForm_def)

theorem handleSave_validates_then_opens_witness:
  "handleSave sampleHost sampleEnv emptyStore sampleForm =
     (TicketCreated sampleTicket,
      activeStore\<lparr>writeLog :=
        [(ACTIVE_TICKETS_KEY, sampleStringify (JArr [sampleTicket]), True)]\<rparr>)
   \<and> handleSave sampleHost sampleEnv emptyStore (sampleForm\<lparr>formParkingName := ''   ''\<rparr>)
       = (MissingParkingName, emptyStore)
   \<and> handleSave sampleHost sampleEnv emptyStore (sampleForm\<lparr>formPricePerHour := ''0''\<rparr>)
       = (InvalidPrice, emptyStore)
   \<and> handleSave sampleHost sampleEnv emptyStore (sampleForm\<lparr>formPricePerHour := ''-5''\<rparr>)
       = (InvalidPrice, emptyStore)
   \<and> handleSave sampleHost sampleEnv emptyStore (sampleForm\<lparr>formPricePerHour := ''abc''\<rparr>)
       = (InvalidPrice, emptyStore)"
proof -
  have j: "jsonStringify sampleHost = sampleStringify"
    by (simp add: sampleHost_def)
  have "handleSave sampleHost sampleEnv emptyStore sampleForm =
     (TicketCreated sampleTicket,
      activeStore\<lparr>writeLog :=
        [(ACTIVE_TICKETS_KEY, sampleStringify (JArr [sampleTicket]), True)]\<rparr>)"
    using handleSave_validates_then_opens[of sampleHost sampleForm sampleEnv emptyStore]
      sample_form(1,2) sample_reads(7)
    by (simp add: Let_def j sampleForm_def sampleEnv_def sampleTicket_def samplePayload_def
        activeStore_def emptyStore_def)
  moreover
  have "handleSave sampleHost sampleEnv emptyStore (sampleForm\<lparr>formParkingName := ''   ''\<rparr>)
       = (MissingParkingName, emptyStore)"
    using handleSave_validates_then_opens[of sampleHost "sampleForm\<lparr>formParkingName := ''   ''\<rparr>"
        sampleEnv emptyStore] sample_form(6)
    by simp
  moreover
  have n: "trim sampleHost (formParkingName sampleForm) \<noteq> []"
    by (simp add: sample_form(1))
  have "handleSave sampleHost sampleEnv emptyStore (sampleForm\<lparr>formPricePerHour := ''0''\<rparr>)
       = (InvalidPrice, emptyStore)"
    using handleSave_validates_then_opens[of sampleHost "sampleForm\<lparr>formPricePerHour := ''0''\<rparr>"
        sampleEnv emptyStore] sample_form(3) n
    by simp
  moreover
  have "handleSave sampleHost sampleEnv emptyStore (sampleForm\<lparr>formPricePerHour := ''-5''\<rparr>)
       = (InvalidPrice, emptyStore)"
    using handleSave_validates_then_opens[of sampleHost "sampleForm\<lparr>formPricePerHour := ''-5''\<rparr>"
        sampleEnv emptyStore] sample_form(4) n
    by simp
  moreover
  have "handleSave sampleHost sampleEnv emptyStore (sampleForm\<lparr>formPricePerHour := ''abc''\<rparr>)
       = (InvalidPrice, emptyStore)"
    using handleSave_validates_then_opens[of sampleHost "sampleForm\<lparr>formPricePerHour := ''abc''\<rparr>"
        sampleEnv emptyStore] sample_form(5) n
    by simp
  ultimately show ?thesis
    by blast
qed

end
